theory Spec2Isabelle
  imports Main "HOL-Library.Sublist" "HOL-Library.AList"
begin

section \<open>Strings and the regular expressions of \<^verbatim>\<open>src/utils/utils.ts\<close>\<close>

text \<open>
  JavaScript strings are modelled as \<^typ>\<open>string\<close>. Every pattern and every literal the
  agent matches against is ASCII, so the operations below act on single characters.
\<close>

text \<open>\<^verbatim>\<open>String.prototype.includes\<close>: does \<open>sub\<close> occur in \<open>s\<close> as a contiguous run?\<close>

fun str_includes :: "string \<Rightarrow> string \<Rightarrow> bool" where
  "str_includes [] sub = (sub = [])"
| "str_includes (c # cs) sub = (prefix sub (c # cs) \<or> str_includes cs sub)"

text \<open>\<^verbatim>\<open>String.prototype.startsWith\<close>.\<close>

definition startsWith :: "string \<Rightarrow> string \<Rightarrow> bool" where
  "startsWith s p = prefix p s"

text \<open>The class \<^verbatim>\<open>\d\<close> of a JavaScript regular expression without the \<^verbatim>\<open>u\<close> flag.\<close>

definition is_digit :: "char \<Rightarrow> bool" where
  "is_digit c = (c \<in> set ''0123456789'')"

text \<open>\<^verbatim>\<open>/localhost|127\.0\.0\.1/.test(url)\<close>\<close>

definition is_localhost :: "string \<Rightarrow> bool" where
  "is_localhost url = (str_includes url ''localhost'' \<or> str_includes url ''127.0.0.1'')"

text \<open>
  \<^verbatim>\<open>/\.(com|net|org|io|dev|app|co|fit)\d+/g\<close> tried at the head of a string: a dot, the first
  alternative (in the order written) that is followed by at least one digit, and then all
  the digits that follow (the quantifier is greedy). The result is the captured
  alternative and what is left after the match.
\<close>

definition tlds :: "string list" where
  "tlds = [''com'', ''net'', ''org'', ''io'', ''dev'', ''app'', ''co'', ''fit'']"

definition tld_then_digit :: "string \<Rightarrow> string \<Rightarrow> bool" where
  "tld_then_digit r t =
     (prefix t r \<and> (case drop (length t) r of [] \<Rightarrow> False | d # _ \<Rightarrow> is_digit d))"

definition match_tld_port :: "string \<Rightarrow> (string \<times> string) option" where
  "match_tld_port s =
     (case s of
        [] \<Rightarrow> None
      | c # r \<Rightarrow>
          if c = CHR ''.'' then
            (case find (tld_then_digit r) tlds of
               None \<Rightarrow> None
             | Some t \<Rightarrow> Some (t, dropWhile is_digit (drop (length t) r)))
          else None)"

text \<open>
  \<^verbatim>\<open>.replace(/\.(com|net|org|io|dev|app|co|fit)\d+/g, '.$1')\<close>: the global replace scans from
  the left, rewrites each match to the dot and the captured alternative, and resumes after
  the match.
\<close>

function strip_tld_ports :: "string \<Rightarrow> string" where
  "strip_tld_ports [] = []"
| "strip_tld_ports (c # cs) =
     (case match_tld_port (c # cs) of
        Some (t, rest) \<Rightarrow> CHR ''.'' # t @ strip_tld_ports rest
      | None \<Rightarrow> c # strip_tld_ports cs)"
  by pat_completeness auto
termination
proof (relation "measure length")
  show "wf (measure length)" by simp
next
  fix c :: char and cs :: string and x :: "string \<times> string" and t rest :: string
  assume m: "match_tld_port (c # cs) = Some x" and x: "(t, rest) = x"
  from m x have "rest = dropWhile is_digit (drop (length t) cs)"
    by (auto simp: match_tld_port_def split: if_splits option.splits)
  moreover have "length (dropWhile is_digit (drop (length t) cs)) \<le> length (drop (length t) cs)"
    by (rule length_dropWhile_le)
  ultimately have "length rest \<le> length cs"
    by simp
  then show "(rest, c # cs) \<in> measure length" by simp
next
  fix c :: char and cs :: string
  show "(cs, c # cs) \<in> measure length" by simp
qed

text \<open>
  \<^verbatim>\<open>.replace(/:(\d+)$/, '')\<close>: the first place where a colon is followed by one or more
  digits and then the end of the string is cut off. Without the \<^verbatim>\<open>m\<close> flag \<^verbatim>\<open>$\<close> is the end
  of the input.
\<close>

fun strip_trailing_port :: "string \<Rightarrow> string" where
  "strip_trailing_port [] = []"
| "strip_trailing_port (c # cs) =
     (if c = CHR '':'' \<and> cs \<noteq> [] \<and> list_all is_digit cs then []
      else c # strip_trailing_port cs)"

text \<open>
  \<^verbatim>\<open>serverUrl.match(/(?:wss?:\/\/)?([^:/]+)/)?.[1]\<close>. The pattern is not anchored; the engine
  tries it at each position from the left. At one position it first tries the optional
  group \<^verbatim>\<open>ws://\<close> or \<^verbatim>\<open>wss://\<close>; if the group matches but no character of \<^verbatim>\<open>[^:/]\<close> follows, it
  backtracks and tries without the group. The capture is the longest run of characters
  other than \<^verbatim>\<open>:\<close> and \<^verbatim>\<open>/\<close>.
\<close>

definition not_sep :: "char \<Rightarrow> bool" where
  "not_sep c = (c \<noteq> CHR '':'' \<and> c \<noteq> CHR ''/'')"

definition ws_scheme_rest :: "string \<Rightarrow> string option" where
  "ws_scheme_rest s =
     (if prefix ''wss://'' s then Some (drop 6 s)
      else if prefix ''ws://'' s then Some (drop 5 s)
      else None)"

definition capture_run :: "string \<Rightarrow> string option" where
  "capture_run s = (if takeWhile not_sep s = [] then None else Some (takeWhile not_sep s))"

definition match_server_at :: "string \<Rightarrow> string option" where
  "match_server_at s =
     (case ws_scheme_rest s of
        None \<Rightarrow> capture_run s
      | Some r \<Rightarrow> (case capture_run r of Some d \<Rightarrow> Some d | None \<Rightarrow> capture_run s))"

fun match_server_domain :: "string \<Rightarrow> string option" where
  "match_server_domain [] = None"
| "match_server_domain (c # cs) =
     (case match_server_at (c # cs) of
        Some d \<Rightarrow> Some d
      | None \<Rightarrow> match_server_domain cs)"

text \<open>\<^verbatim>\<open>.replace(/^http:\/\//, 'https://')\<close>\<close>

definition force_https :: "string \<Rightarrow> string" where
  "force_https s = (if prefix ''http://'' s then ''https://'' @ drop 7 s else s)"

section \<open>Options and the public-URL normalizer\<close>

text \<open>\<^verbatim>\<open>interface TunnelClientOptions\<close>. The field \<^verbatim>\<open>subdomain\<close> is \<open>opt_subdomain\<close> here,
  since the session state has a field of that name too.\<close>

record TunnelClientOptions =
  serverUrl :: string
  localPort :: nat
  opt_subdomain :: string
  token :: "string option"
  reconnect :: "bool option"

text \<open>
  \<^verbatim>\<open>fixPublicUrl(url, subdomain, options)\<close>. With \<^verbatim>\<open>url\<close>, \<^verbatim>\<open>subdomain\<close> and
  \<^verbatim>\<open>options.serverUrl\<close> strings, as their types say, no step of the \<^verbatim>\<open>try\<close> block throws, so
  the \<^verbatim>\<open>catch\<close> branch (which returns \<^verbatim>\<open>url\<close>) has no counterpart. A string is truthy iff
  it is not empty.
\<close>

definition fixPublicUrl :: "string \<Rightarrow> string \<Rightarrow> TunnelClientOptions \<Rightarrow> string" where
  "fixPublicUrl url subdomain options =
     (if is_localhost url then url
      else
        let fixedUrl = strip_trailing_port (strip_tld_ports url);
            serverDomain = match_server_domain (serverUrl options);
            fixedUrl =
              (case serverDomain of
                 None \<Rightarrow> fixedUrl
               | Some d \<Rightarrow>
                   if d \<noteq> [] \<and> subdomain \<noteq> [] \<and> \<not> str_includes fixedUrl d then
                     (let protocol =
                        (if startsWith (serverUrl options) ''https://'' then ''https://''
                         else ''http://'')
                      in protocol @ subdomain @ d)
                   else fixedUrl)
        in force_https fixedUrl)"

section \<open>Headers and the HTTP forwarder of \<^verbatim>\<open>src/services/http-proxy.service.ts\<close>\<close>

text \<open>
  A header value is \<^verbatim>\<open>string | string[]\<close>. A \<^verbatim>\<open>Record<string, string | string[]>\<close> is the list of
  its own properties in the order \<^verbatim>\<open>Object.entries\<close> yields them. A \<^verbatim>\<open>Buffer\<close> is its bytes.
\<close>

datatype header_value = Single string | Multi "string list"

type_synonym headers = "(string \<times> header_value) list"

type_synonym bytes = string

text \<open>
  \<^verbatim>\<open>String.prototype.toLowerCase\<close> on the ASCII letters; header names are ASCII tokens. (No
  character outside ASCII lowercases to a letter that occurs in one of the four excluded
  names, so membership of the lowercase form in \<open>excludeHeaders\<close> is not affected.)
\<close>

definition lower_char :: "char \<Rightarrow> char" where
  "lower_char c =
     (case map_of (zip ''ABCDEFGHIJKLMNOPQRSTUVWXYZ'' ''abcdefghijklmnopqrstuvwxyz'') c of
        None \<Rightarrow> c
      | Some l \<Rightarrow> l)"

definition toLowerCase :: "string \<Rightarrow> string" where
  "toLowerCase s = map lower_char s"

definition excludeHeaders :: "string set" where
  "excludeHeaders = {''host'', ''connection'', ''transfer-encoding'', ''content-length''}"

text \<open>
  \<^verbatim>\<open>filtered[key] = value\<close> on an object literal: the value of an own property is replaced
  in place, a new own property is added last. The key \<^verbatim>\<open>__proto__\<close> is the accessor inherited
  from \<^verbatim>\<open>Object.prototype\<close>: assigning to it adds no own property.
\<close>

definition set_property :: "headers \<Rightarrow> string \<Rightarrow> header_value \<Rightarrow> headers" where
  "set_property obj key v = (if key = ''__proto__'' then obj else AList.update key v obj)"

text \<open>\<^verbatim>\<open>HttpProxy.filterHeaders\<close>: the \<^verbatim>\<open>forEach\<close> over \<^verbatim>\<open>Object.entries(headers)\<close> is a left fold
  with \<^verbatim>\<open>filtered\<close> as the accumulator, starting from \<^verbatim>\<open>{}\<close>.\<close>

definition filterHeaders :: "headers \<Rightarrow> headers" where
  "filterHeaders hs =
     foldl (\<lambda>filtered (key, v).
              if toLowerCase key \<notin> excludeHeaders then set_property filtered key v
              else filtered)
       [] hs"

text \<open>\<^verbatim>\<open>interface ProxyRequest\<close> and \<^verbatim>\<open>interface ProxyResponse\<close>; the fields carry a prefix
  because both interfaces have \<^verbatim>\<open>headers\<close> and \<^verbatim>\<open>body\<close>.\<close>

record ProxyRequest =
  pr_method :: string
  pr_path :: string
  pr_query :: string
  pr_headers :: headers
  pr_body :: bytes

record ProxyResponse =
  res_statusCode :: nat
  res_statusMessage :: string
  res_headers :: headers
  res_body :: bytes

text \<open>
  The call \<^verbatim>\<open>axios({...})\<close> is the environment. Its argument is the request configuration
  (\<^verbatim>\<open>responseType: 'arraybuffer'\<close>, \<^verbatim>\<open>maxRedirects: 0\<close> and \<^verbatim>\<open>validateStatus: () => true\<close> are
  constants, so every HTTP response resolves the promise). It either resolves with a
  response or rejects with a thrown value: an \<^verbatim>\<open>AxiosError\<close> with its \<^verbatim>\<open>code\<close> and \<^verbatim>\<open>message\<close>,
  another \<^verbatim>\<open>Error\<close> with its \<^verbatim>\<open>message\<close>, or a value that is no \<^verbatim>\<open>Error\<close>.
\<close>

record AxiosRequestConfig =
  ax_method :: string
  ax_url :: string
  ax_headers :: headers
  ax_data :: "bytes option"

record AxiosResponse =
  status :: nat
  statusText :: string
  response_headers :: headers
  response_data :: bytes

datatype thrown = AxiosError "string option" string | PlainError string | NonError

type_synonym axios_fn = "AxiosRequestConfig \<Rightarrow> thrown + AxiosResponse"

text \<open>\<^verbatim>\<open>error instanceof Error\<close> and \<^verbatim>\<open>error.message\<close>.\<close>

fun instanceof_Error :: "thrown \<Rightarrow> bool" where
  "instanceof_Error (AxiosError code msg) = True"
| "instanceof_Error (PlainError msg) = True"
| "instanceof_Error NonError = False"

fun error_message :: "thrown \<Rightarrow> string" where
  "error_message (AxiosError code msg) = msg"
| "error_message (PlainError msg) = msg"
| "error_message NonError = []"

text \<open>The decimal text of a number, as a template literal prints \<^verbatim>\<open>this.localPort\<close>.\<close>

fun string_of_nat :: "nat \<Rightarrow> string" where
  "string_of_nat n =
     (if n < 10 then [''0123456789'' ! n]
      else string_of_nat (n div 10) @ [''0123456789'' ! (n mod 10)])"

declare string_of_nat.simps [simp del]

datatype HttpProxy = HttpProxy (proxyPort: nat)

text \<open>\<^verbatim>\<open>HttpProxy.forwardRequest\<close>. \<open>requestConfig\<close> is the object literal passed to \<^verbatim>\<open>axios\<close>, the
  outbound request; \<open>Inl\<close> is the rejection of the returned promise.\<close>

definition requestConfig :: "HttpProxy \<Rightarrow> ProxyRequest \<Rightarrow> AxiosRequestConfig" where
  "requestConfig proxy request =
     (let queryString = (if pr_query request \<noteq> [] then ''?'' @ pr_query request else []);
          url = ''http://localhost:'' @ string_of_nat (proxyPort proxy) @ pr_path request
                  @ queryString
      in \<lparr>ax_method = pr_method request, ax_url = url,
          ax_headers = filterHeaders (pr_headers request),
          ax_data = (if length (pr_body request) > 0 then Some (pr_body request)
                     else None)\<rparr>)"

definition forwardRequest :: "HttpProxy \<Rightarrow> axios_fn \<Rightarrow> ProxyRequest \<Rightarrow> thrown + ProxyResponse" where
  "forwardRequest proxy axios request =
     (case axios (requestConfig proxy request) of
           Inr response \<Rightarrow>
             Inr \<lparr>res_statusCode = status response,
                  res_statusMessage = statusText response,
                  res_headers = filterHeaders (pr_headers request),
                  res_body = response_data response\<rparr>
         | Inl error \<Rightarrow>
             (case error of
                AxiosError code msg \<Rightarrow>
                  if code = Some ''ECONNREFUSED'' then
                    Inl (PlainError (''Cannot connect to local service on port ''
                           @ string_of_nat (proxyPort proxy) @ ''. Is your service running?''))
                  else if code = Some ''ETIMEDOUT'' \<or> code = Some ''ECONNABORTED'' then
                    Inl (PlainError ''Request to local service timed out'')
                  else Inl error
              | _ \<Rightarrow> Inl error))"

section \<open>Base64\<close>

text \<open>
  \<^verbatim>\<open>Buffer.toString('base64')\<close>: the standard alphabet with \<^verbatim>\<open>=\<close> padding, three bytes to four
  characters.
\<close>

definition b64_char :: "nat \<Rightarrow> char" where
  "b64_char n =
     ''ABCDEFGHIJKLMNOPQRSTUVWXYZabcdefghijklmnopqrstuvwxyz0123456789+/'' ! n"

fun base64_encode :: "bytes \<Rightarrow> string" where
  "base64_encode [] = []"
| "base64_encode [a] =
     (let x = (of_char a :: nat)
      in [b64_char (x div 4), b64_char ((x mod 4) * 16), CHR ''='', CHR ''=''])"
| "base64_encode [a, b] =
     (let x = (of_char a :: nat); y = (of_char b :: nat)
      in [b64_char (x div 4), b64_char ((x mod 4) * 16 + y div 16),
          b64_char ((y mod 16) * 4), CHR ''=''])"
| "base64_encode (a # b # c # rest) =
     (let x = (of_char a :: nat); y = (of_char b :: nat); z = (of_char c :: nat)
      in [b64_char (x div 4), b64_char ((x mod 4) * 16 + y div 16),
          b64_char ((y mod 16) * 4 + z div 64), b64_char (z mod 64)]
         @ base64_encode rest)"

section \<open>Framed messages (\<^verbatim>\<open>protocol.interface\<close>)\<close>

text \<open>
  One constructor per \<^verbatim>\<open>MessageType\<close>; the variants the handlers read field by field carry a
  record, whose fields have a prefix where two interfaces share a name. \<^verbatim>\<open>createMessage(type, payload)\<close> adds the tag and \<^verbatim>\<open>timestamp: Date.now()\<close> to the
  payload: here, the constructor applied to the payload and the clock reading.
  \<^verbatim>\<open>serializeMessage\<close> is \<^verbatim>\<open>JSON.stringify\<close>; frames are kept structured, and a field that is
  \<^verbatim>\<open>undefined\<close> (left out by \<^verbatim>\<open>JSON.stringify\<close>) is \<open>None\<close>.
\<close>

record RequestMetadata =
  rq_method :: string
  rq_path :: string
  rq_query :: string
  rq_headers :: headers

record RequestMessage =
  streamId :: string
  rq_tunnelId :: string
  metadata :: RequestMetadata
  body :: string
  rq_timestamp :: int

record ConnectAckMessage =
  ack_tunnelId :: string
  ack_subdomain :: string
  ack_publicUrl :: string
  ack_timestamp :: int

record ResponseMetadata =
  md_statusCode :: nat
  md_statusMessage :: string
  md_headers :: headers

record ResponseMessage =
  rs_streamId :: string
  rs_metadata :: ResponseMetadata
  rs_body :: string
  rs_timestamp :: int

record RequestLogMessage =
  log_tunnelId :: string
  log_method :: string
  log_host :: header_value
  log_path :: string
  log_statusCode :: nat
  log_responseTime :: int
  log_userAgent :: "header_value option"
  log_ipAddress :: "header_value option"
  log_errorMessage :: "string option"
  log_timestamp :: int

record ConnectMessage =
  cn_token :: "string option"
  requestedSubdomain :: string
  agentVersion :: "string option"
  cn_localPort :: nat
  requestCount :: nat
  cn_timestamp :: int

datatype TunnelMessage =
    CONNECT ConnectMessage
  | CONNECT_ACK ConnectAckMessage
  | REQUEST RequestMessage
  | RESPONSE ResponseMessage
  | REQUEST_LOG RequestLogMessage
  | HEARTBEAT int
  | HEARTBEAT_ACK int
  | LOCAL_SERVICE_PING string bool int
  | ERROR "string option" string string int
  | DISCONNECT "string option" int

text \<open>
  The arguments of \<open>LOCAL_SERVICE_PING\<close> are \<^verbatim>\<open>tunnelId\<close>, \<^verbatim>\<open>localServiceConnected\<close> and
  \<^verbatim>\<open>timestamp\<close>; those of \<open>ERROR\<close> are \<^verbatim>\<open>streamId\<close>, \<^verbatim>\<open>code\<close>, \<^verbatim>\<open>message\<close>, \<^verbatim>\<open>timestamp\<close>; those of
  \<open>DISCONNECT\<close> are \<^verbatim>\<open>reason\<close> and \<^verbatim>\<open>timestamp\<close>.
\<close>

section \<open>The socket and what is sent on it\<close>

text \<open>
  A socket is a handle; \<^verbatim>\<open>socket?.emit(event, serializeMessage(m))\<close> on a socket that is
  \<^verbatim>\<open>null\<close> sends nothing. What a handler sends is the list of its emissions, in order.
\<close>

type_synonym Socket = nat

type_synonym emission = "Socket \<times> string \<times> TunnelMessage"

definition emit :: "Socket option \<Rightarrow> string \<Rightarrow> TunnelMessage \<Rightarrow> emission list" where
  "emit socket event m = (case socket of None \<Rightarrow> [] | Some sock \<Rightarrow> [(sock, event, m)])"

text \<open>What the handlers take from outside: the \<^verbatim>\<open>axios\<close> call, \<^verbatim>\<open>Buffer.from(s, 'base64')\<close>
  and the constant \<^verbatim>\<open>AGENT_VERSION\<close> of \<^verbatim>\<open>config.ts\<close> (read from the process environment in
  development, so possibly \<^verbatim>\<open>undefined\<close>).\<close>

record env =
  axios :: axios_fn
  bufferFromBase64 :: "string \<Rightarrow> bytes"
  AGENT_VERSION :: "string option"

text \<open>\<^verbatim>\<open>sendConnectMessage\<close> of \<^verbatim>\<open>utils.ts\<close>; \<open>now\<close> is the reading of \<^verbatim>\<open>Date.now()\<close>.\<close>

definition sendConnectMessage ::
  "env \<Rightarrow> int \<Rightarrow> TunnelClientOptions \<Rightarrow> Socket option \<Rightarrow> emission list" where
  "sendConnectMessage e now options socket =
     (let connectMessage = CONNECT
            \<lparr>cn_token = token options,
             requestedSubdomain = opt_subdomain options,
             agentVersion = AGENT_VERSION e,
             cn_localPort = localPort options,
             requestCount = 0,
             cn_timestamp = now\<rparr>
      in emit socket ''message'' connectMessage)"

text \<open>\<^verbatim>\<open>a || b\<close> on header values: the empty string is falsy, an array is truthy.\<close>

fun truthy_value :: "header_value option \<Rightarrow> bool" where
  "truthy_value None = False"
| "truthy_value (Some (Single s)) = (s \<noteq> [])"
| "truthy_value (Some (Multi xs)) = True"

text \<open>
  \<^verbatim>\<open>sendRequestLog\<close> of \<^verbatim>\<open>utils.ts\<close>. \<^verbatim>\<open>headers['user-agent']\<close> is the lookup of an own property.
  With a request message of its declared type nothing in the \<^verbatim>\<open>try\<close> block throws.
\<close>

definition sendRequestLog ::
  "Socket option \<Rightarrow> string \<Rightarrow> string \<Rightarrow> RequestMessage \<Rightarrow> nat \<Rightarrow> int \<Rightarrow> string option
     \<Rightarrow> int \<Rightarrow> emission list" where
  "sendRequestLog socket tunnelId publicUrl requestMessage statusCode responseTime errorMessage
       now =
     (if tunnelId = [] then []
      else
        let hs = rq_headers (metadata requestMessage);
            userAgent = map_of hs ''user-agent'';
            host = (if truthy_value (map_of hs ''host'') then the (map_of hs ''host'')
                    else if publicUrl \<noteq> [] then Single publicUrl
                    else Single ''unknown'');
            logMessage = REQUEST_LOG
              \<lparr>log_tunnelId = tunnelId,
               log_method = rq_method (metadata requestMessage),
               log_host = host,
               log_path = rq_path (metadata requestMessage),
               log_statusCode = statusCode,
               log_responseTime = responseTime,
               log_userAgent = userAgent,
               log_ipAddress = map_of hs ''x-forwarded-for'',
               log_errorMessage = errorMessage,
               log_timestamp = now\<rparr>
        in emit socket ''message'' logMessage)"

section \<open>The session: \<^verbatim>\<open>MessageHandlerService\<close>\<close>

text \<open>
  The private fields of the class. An interval or timeout handle that is not \<^verbatim>\<open>null\<close> is an
  armed timer: an interval is its period in milliseconds, the reconnection timeout is its
  delay and the \<^verbatim>\<open>retryCount\<close> its callback passes to \<^verbatim>\<open>attemptReconnect\<close>. The field
  \<^verbatim>\<open>socket\<close> has type \<^verbatim>\<open>Socket\<close>, \<^verbatim>\<open>httpProxy\<close> has type \<^verbatim>\<open>HttpProxy | null\<close>. Console output is
  not part of the model.
\<close>

record MessageHandlerService =
  socket :: Socket
  options :: TunnelClientOptions
  isConnected :: bool
  shouldReconnect :: bool
  tunnelId :: "string option"
  subdomain :: "string option"
  publicUrl :: "string option"
  httpProxy :: "HttpProxy option"
  heartbeatInterval :: "nat option"
  reconnectTimeout :: "(nat \<times> nat) option"
  localServicePingInterval :: "nat option"

text \<open>The constructor.\<close>

definition new_MessageHandlerService :: "Socket \<Rightarrow> TunnelClientOptions \<Rightarrow> MessageHandlerService" where
  "new_MessageHandlerService sock opts =
     \<lparr>socket = sock, options = opts, isConnected = False, shouldReconnect = True,
      tunnelId = None, subdomain = None, publicUrl = None,
      httpProxy = Some (HttpProxy (localPort opts)),
      heartbeatInterval = None, reconnectTimeout = None, localServicePingInterval = None\<rparr>"

definition updateSocket :: "MessageHandlerService \<Rightarrow> Socket \<Rightarrow> MessageHandlerService" where
  "updateSocket s sock = s\<lparr>socket := sock\<rparr>"

text \<open>\<^verbatim>\<open>!x\<close> and \<^verbatim>\<open>!!x ? x : ''\<close> for \<^verbatim>\<open>x : string | null\<close>: \<^verbatim>\<open>null\<close> and the empty string are
  falsy.\<close>

fun falsy :: "string option \<Rightarrow> bool" where
  "falsy None = True"
| "falsy (Some x) = (x = [])"

definition or_empty :: "string option \<Rightarrow> string" where
  "or_empty x = (if \<not> falsy x then the x else [])"

definition handleConnect :: "env \<Rightarrow> int \<Rightarrow> MessageHandlerService \<Rightarrow> emission list" where
  "handleConnect e now s =
     (if \<not> isConnected s then sendConnectMessage e now (options s) (Some (socket s)) else [])"

text \<open>
  \<^verbatim>\<open>sendLocalServicePing\<close> and \<^verbatim>\<open>pingLocalService\<close>. The probe awaits the forwarder; its three
  outcomes are a response, an \<^verbatim>\<open>Error\<close> whose message names one of the three texts, and
  anything else.
\<close>

definition sendLocalServicePing :: "int \<Rightarrow> MessageHandlerService \<Rightarrow> bool \<Rightarrow> emission list" where
  "sendLocalServicePing now s connected =
     (if falsy (tunnelId s) then []
      else emit (Some (socket s)) ''local_service''
             (LOCAL_SERVICE_PING (the (tunnelId s)) connected now))"

definition pingLocalService :: "env \<Rightarrow> int \<Rightarrow> MessageHandlerService \<Rightarrow> emission list" where
  "pingLocalService e now s =
     (case httpProxy s of
        None \<Rightarrow> []
      | Some proxy \<Rightarrow>
          if falsy (tunnelId s) then []
          else
            (case forwardRequest proxy (axios e)
                    \<lparr>pr_method = ''HEAD'', pr_path = ''/'', pr_query = [],
                     pr_headers = [(''User-Agent'', Single ''Tunnel-Agent-Ping'')],
                     pr_body = []\<rparr> of
               Inr response \<Rightarrow> sendLocalServicePing now s True
             | Inl error \<Rightarrow>
                 if instanceof_Error error \<and>
                    (str_includes (error_message error) ''ECONNREFUSED'' \<or>
                     str_includes (error_message error) ''Cannot connect to local service'' \<or>
                     str_includes (error_message error) ''ETIMEDOUT'')
                 then sendLocalServicePing now s False
                 else []))"

definition startHeartbeat :: "MessageHandlerService \<Rightarrow> MessageHandlerService" where
  "startHeartbeat s = s\<lparr>heartbeatInterval := Some 30000\<rparr>"

text \<open>The callback of the heartbeat interval, at one tick.\<close>

definition heartbeat_tick :: "int \<Rightarrow> MessageHandlerService \<Rightarrow> emission list" where
  "heartbeat_tick now s =
     (if isConnected s then emit (Some (socket s)) ''message'' (HEARTBEAT now) else [])"

definition startLocalServicePing ::
  "env \<Rightarrow> int \<Rightarrow> MessageHandlerService \<Rightarrow> MessageHandlerService \<times> emission list" where
  "startLocalServicePing e now s =
     (s\<lparr>localServicePingInterval := Some 5000\<rparr>, pingLocalService e now s)"

definition handleConnectAck ::
  "env \<Rightarrow> int \<Rightarrow> MessageHandlerService \<Rightarrow> ConnectAckMessage
     \<Rightarrow> MessageHandlerService \<times> emission list" where
  "handleConnectAck e now s m =
     (let s1 = s\<lparr>tunnelId := Some (ack_tunnelId m), subdomain := Some (ack_subdomain m)\<rparr>;
          s2 = s1\<lparr>publicUrl :=
                    Some (fixPublicUrl (ack_publicUrl m) (ack_subdomain m) (options s1))\<rparr>
      in startLocalServicePing e now (startHeartbeat s2))"

definition handleHeartbeat :: "int \<Rightarrow> MessageHandlerService \<Rightarrow> emission list" where
  "handleHeartbeat now s = emit (Some (socket s)) ''message'' (HEARTBEAT_ACK now)"

text \<open>
  \<^verbatim>\<open>handleRequest\<close>. The four readings of \<^verbatim>\<open>Date.now()\<close> it makes are \<^verbatim>\<open>startTime\<close>, the stamp
  of the RESPONSE frame, the reading in \<^verbatim>\<open>finally\<close> and the stamp of the REQUEST_LOG frame.
  The handler is taken as one step: the session fields read in \<^verbatim>\<open>finally\<close> are those of the
  state it started in.

  The variables \<^verbatim>\<open>statusCode\<close> and \<^verbatim>\<open>errorMessage\<close> are declared before the \<^verbatim>\<open>try\<close>. The \<^verbatim>\<open>try\<close>
  block assigns \<^verbatim>\<open>statusCode\<close> after the forwarder has answered. The \<^verbatim>\<open>catch\<close> block declares a
  constant of its own, also named \<^verbatim>\<open>errorMessage\<close>, that holds the 502 frame (\<open>errorFrame\<close>
  below); the outer \<^verbatim>\<open>errorMessage\<close> is what \<^verbatim>\<open>finally\<close> passes to \<^verbatim>\<open>sendRequestLog\<close>.
\<close>

record request_clock =
  startTime :: int
  frameStamp :: int
  endTime :: int
  logStamp :: int

text \<open>The object literal \<^verbatim>\<open>handleRequest\<close> passes to the forwarder.\<close>

definition toProxyRequest :: "env \<Rightarrow> RequestMessage \<Rightarrow> ProxyRequest" where
  "toProxyRequest e requestMessage =
     \<lparr>pr_method = rq_method (metadata requestMessage),
      pr_path = rq_path (metadata requestMessage),
      pr_query = rq_query (metadata requestMessage),
      pr_headers = rq_headers (metadata requestMessage),
      pr_body = bufferFromBase64 e (body requestMessage)\<rparr>"

definition handleRequest ::
  "env \<Rightarrow> request_clock \<Rightarrow> MessageHandlerService \<Rightarrow> RequestMessage \<Rightarrow> emission list" where
  "handleRequest e clk s requestMessage =
     (let statusCode = (502 :: nat);
          errorMessage = (None :: string option);
          (statusCode, sent) =
            (case httpProxy s of
               None \<Rightarrow> (statusCode, [])
             | Some proxy \<Rightarrow>
                 (case forwardRequest proxy (axios e) (toProxyRequest e requestMessage) of
                    Inr response \<Rightarrow>
                      (let responseMessage = RESPONSE
                             \<lparr>rs_streamId = streamId requestMessage,
                              rs_metadata =
                                \<lparr>md_statusCode = res_statusCode response,
                                 md_statusMessage = res_statusMessage response,
                                 md_headers = res_headers response\<rparr>,
                              rs_body = base64_encode (res_body response),
                              rs_timestamp = frameStamp clk\<rparr>
                       in (res_statusCode response,
                           emit (Some (socket s)) ''message'' responseMessage))
                  | Inl error \<Rightarrow>
                      (let errorFrame = RESPONSE
                             \<lparr>rs_streamId = streamId requestMessage,
                              rs_metadata =
                                \<lparr>md_statusCode = 502,
                                 md_statusMessage = ''Bad Gateway'',
                                 md_headers = [(''content-type'', Single ''text/plain'')]\<rparr>,
                              rs_body = base64_encode
                                          ''Error forwarding request to local service'',
                              rs_timestamp = frameStamp clk\<rparr>
                       in (statusCode, emit (Some (socket s)) ''message'' errorFrame))));
          responseTime = endTime clk - startTime clk
      in sent @ sendRequestLog (Some (socket s)) (or_empty (tunnelId s))
                  (or_empty (publicUrl s)) requestMessage statusCode responseTime
                  errorMessage (logStamp clk))"

section \<open>Disconnection and the reconnection supervisor\<close>

definition handleDisconnect :: "MessageHandlerService \<Rightarrow> MessageHandlerService" where
  "handleDisconnect s =
     (let s1 = s\<lparr>isConnected := False, heartbeatInterval := None,
                  localServicePingInterval := None\<rparr>
      in if shouldReconnect s1 \<and> reconnect (options s1) = Some True
         then s1\<lparr>reconnectTimeout := Some (5000, 0)\<rparr>
         else s1)"

definition destroy :: "MessageHandlerService \<Rightarrow> MessageHandlerService" where
  "destroy s =
     s\<lparr>shouldReconnect := False, heartbeatInterval := None,
       localServicePingInterval := None, reconnectTimeout := None\<rparr>"

definition maxRetries :: nat where "maxRetries = 10"
definition baseDelay :: nat where "baseDelay = 5000"
definition maxDelay :: nat where "maxDelay = 60000"

text \<open>
  \<^verbatim>\<open>attemptReconnect(retryCount)\<close>. \<open>connected\<close> is the outcome of \<^verbatim>\<open>await this.connectFn()\<close>:
  \<open>None\<close> when the promise resolves, the thrown value when it rejects. The result is the
  session afterwards and the exit code when \<^verbatim>\<open>process.exit\<close> is called.
\<close>

definition attemptReconnect ::
  "MessageHandlerService \<Rightarrow> nat \<Rightarrow> thrown option \<Rightarrow> MessageHandlerService \<times> nat option" where
  "attemptReconnect s retryCount connected =
     (let s1 = s\<lparr>reconnectTimeout := None\<rparr>
      in case connected of
           None \<Rightarrow> (s1, None)
         | Some error \<Rightarrow>
             if retryCount < maxRetries - 1 \<and> shouldReconnect s1 then
               (let delay = min (baseDelay * 2 ^ retryCount) maxDelay
                in (s1\<lparr>reconnectTimeout := Some (delay, retryCount + 1)\<rparr>, None))
             else (s1, Some 1))"

text \<open>
  The chain of timers of one disconnect episode: each armed timeout fires and calls
  \<^verbatim>\<open>attemptReconnect\<close> with its \<^verbatim>\<open>retryCount\<close>; the list gives the outcome of each successive
  \<^verbatim>\<open>connectFn()\<close>. The result is the delays scheduled after the failures, in order, and how
  the chain stands when the outcomes are used up.
\<close>

datatype episode_end = Reconnected | ProcessExit nat | TimerArmed nat

fun run_reconnects ::
  "MessageHandlerService \<Rightarrow> nat \<Rightarrow> thrown option list \<Rightarrow> nat list \<times> episode_end" where
  "run_reconnects s retryCount [] = ([], TimerArmed retryCount)"
| "run_reconnects s retryCount (r # rs) =
     (case attemptReconnect s retryCount r of
        (s1, Some code) \<Rightarrow> ([], ProcessExit code)
      | (s1, None) \<Rightarrow>
          (case reconnectTimeout s1 of
             None \<Rightarrow> ([], Reconnected)
           | Some (delay, next) \<Rightarrow>
               (let (ds, e) = run_reconnects s1 next rs in (delay # ds, e))))"

section \<open>The dispatcher of \<^verbatim>\<open>src/socketIO/socket-handler.ts\<close>\<close>

text \<open>
  \<^verbatim>\<open>SocketIOHandler.handleMessage\<close>: the \<^verbatim>\<open>switch\<close> has the cases CONNECT, CONNECT_ACK, REQUEST
  and ERROR; every other tag falls to \<^verbatim>\<open>default\<close>, which only logs.
\<close>

fun handleMessage ::
  "env \<Rightarrow> int \<Rightarrow> request_clock \<Rightarrow> MessageHandlerService \<Rightarrow> TunnelMessage
     \<Rightarrow> MessageHandlerService \<times> emission list" where
  "handleMessage e now clk s (CONNECT m) = (s, handleConnect e now s)"
| "handleMessage e now clk s (CONNECT_ACK m) = handleConnectAck e now s m"
| "handleMessage e now clk s (REQUEST m) = (s, handleRequest e clk s m)"
| "handleMessage e now clk s (ERROR sid code msg t) = (s, [])"
| "handleMessage e now clk s _ = (s, [])"

fun is_connect_or_ack :: "TunnelMessage \<Rightarrow> bool" where
  "is_connect_or_ack (CONNECT m) = True"
| "is_connect_or_ack (CONNECT_ACK m) = True"
| "is_connect_or_ack _ = False"

text \<open>
  The listener of the \<^verbatim>\<open>message\<close> event. \<open>None\<close> is a payload on which \<^verbatim>\<open>parseMessage\<close>
  (\<^verbatim>\<open>JSON.parse\<close>) throws: the \<^verbatim>\<open>catch\<close> logs and nothing else happens. The third component
  says whether \<^verbatim>\<open>resolve()\<close>, the resolver of the promise returned by \<^verbatim>\<open>connect()\<close>, was
  called.
\<close>

definition on_message ::
  "env \<Rightarrow> int \<Rightarrow> request_clock \<Rightarrow> MessageHandlerService \<Rightarrow> TunnelMessage option
     \<Rightarrow> MessageHandlerService \<times> emission list \<times> bool" where
  "on_message e now clk s parsed =
     (case parsed of
        None \<Rightarrow> (s, [], False)
      | Some message \<Rightarrow>
          (let (s1, sent) = handleMessage e now clk s message
           in if is_connect_or_ack message \<and> \<not> isConnected s1
              then (s1\<lparr>isConnected := True\<rparr>, sent, True)
              else (s1, sent, False)))"

text \<open>
  The listeners of the transport events. The handler is constructed with the socket and
  the options of the session. \<^verbatim>\<open>connect\<close> sends the CONNECT frame, \<^verbatim>\<open>disconnect\<close> calls
  \<^verbatim>\<open>handleDisconnect\<close>, and \<^verbatim>\<open>connect_error\<close> rejects the promise of \<^verbatim>\<open>connect()\<close> iff the session
  is not connected (the result says whether \<^verbatim>\<open>reject\<close> was called).
\<close>

definition on_connect :: "env \<Rightarrow> int \<Rightarrow> MessageHandlerService \<Rightarrow> emission list" where
  "on_connect e now s = sendConnectMessage e now (options s) (Some (socket s))"

definition on_disconnect :: "MessageHandlerService \<Rightarrow> MessageHandlerService" where
  "on_disconnect s = handleDisconnect s"

definition on_connect_error :: "MessageHandlerService \<Rightarrow> bool" where
  "on_connect_error s = (\<not> isConnected s)"

section \<open>Reading a list of emissions\<close>

fun is_response :: "emission \<Rightarrow> bool" where
  "is_response (sock, event, RESPONSE m) = True"
| "is_response (sock, event, other) = False"

fun request_logs :: "emission list \<Rightarrow> RequestLogMessage list" where
  "request_logs [] = []"
| "request_logs ((sock, event, REQUEST_LOG l) # rest) = l # request_logs rest"
| "request_logs (other # rest) = request_logs rest"

section \<open>Scenarios\<close>

text \<open>
  The literal values of the specification's end-to-end scenarios: the options and the
  established session of S1, the request of S2 (its body is empty, and the empty string
  decodes to the empty buffer), a local service that gives the same outcome to every
  call, and readings of the clock.
\<close>

definition options_S1 :: TunnelClientOptions where
  "options_S1 =
     \<lparr>serverUrl = ''https://tunnl.fit'', localPort = 3000, opt_subdomain = ''demo'',
      token = Some ''tok'', reconnect = Some True\<rparr>"

definition session_fresh :: MessageHandlerService where
  "session_fresh = new_MessageHandlerService 1 options_S1"

definition session_S1 :: MessageHandlerService where
  "session_S1 =
     session_fresh\<lparr>isConnected := True, tunnelId := Some ''T1'', subdomain := Some ''demo'',
       publicUrl := Some ''https://demo.tunnl.fit'', heartbeatInterval := Some 30000,
       localServicePingInterval := Some 5000\<rparr>"

definition request_S2 :: RequestMessage where
  "request_S2 =
     \<lparr>streamId = ''S'', rq_tunnelId = ''T1'',
      metadata = \<lparr>rq_method = ''GET'', rq_path = ''/x'', rq_query = ''a=1'',
                  rq_headers = [(''host'', Single ''demo.tunnl.fit''),
                                (''user-agent'', Single ''curl/8'')]\<rparr>,
      body = [], rq_timestamp = 1000\<rparr>"

definition local_service :: "thrown + AxiosResponse \<Rightarrow> env" where
  "local_service outcome =
     \<lparr>axios = (\<lambda>config. outcome), bufferFromBase64 = (\<lambda>encoded. []),
      AGENT_VERSION = Some ''1.0.0''\<rparr>"

definition answer_200 :: "thrown + AxiosResponse" where
  "answer_200 =
     Inr \<lparr>status = 200, statusText = ''OK'',
          response_headers = [(''content-type'', Single ''text/plain'')],
          response_data = ''hello''\<rparr>"

definition clock_S2 :: request_clock where
  "clock_S2 = \<lparr>startTime = 1000, frameStamp = 1007, endTime = 1008, logStamp = 1009\<rparr>"

definition request_mixed_case :: ProxyRequest where
  "request_mixed_case =
     \<lparr>pr_method = ''POST'', pr_path = ''/upload'', pr_query = [],
      pr_headers = [(''Host'', Single ''demo.tunnl.fit''), (''CONNECTION'', Single ''keep-alive''),
                    (''Transfer-Encoding'', Single ''chunked''),
                    (''Content-length'', Single ''2''),
                    (''Accept'', Multi [''text/html'', ''*/*''])],
      pr_body = ''hi''\<rparr>"

definition refused :: "thrown + AxiosResponse" where
  "refused = Inl (AxiosError (Some ''ECONNREFUSED'') ''connect ECONNREFUSED 127.0.0.1:3000'')"

definition timed_out :: "thrown + AxiosResponse" where
  "timed_out = Inl (AxiosError (Some ''ETIMEDOUT'') ''connect ETIMEDOUT 127.0.0.1:3000'')"

definition connect_frame :: ConnectMessage where
  "connect_frame =
     \<lparr>cn_token = None, requestedSubdomain = [], agentVersion = Some ''1.0.0'',
      cn_localPort = 0, requestCount = 0, cn_timestamp = 900\<rparr>"

section \<open>Names for the proofs\<close>

text \<open>The 502 frame of the \<^verbatim>\<open>catch\<close> block of \<^verbatim>\<open>handleRequest\<close>, as an emission.\<close>

definition bad_gateway :: "Socket \<Rightarrow> string \<Rightarrow> int \<Rightarrow> emission" where
  "bad_gateway sock sid stamp =
     (sock, ''message'', RESPONSE
        \<lparr>rs_streamId = sid,
         rs_metadata = \<lparr>md_statusCode = 502, md_statusMessage = ''Bad Gateway'',
                        md_headers = [(''content-type'', Single ''text/plain'')]\<rparr>,
         rs_body = base64_encode ''Error forwarding request to local service'',
         rs_timestamp = stamp\<rparr>)"

text \<open>The delay \<^verbatim>\<open>Math.min(baseDelay * Math.pow(2, retryCount), maxDelay)\<close> with the constants
  written out.\<close>

definition backoff :: "nat \<Rightarrow> nat" where
  "backoff i = min (5000 * 2 ^ i) 60000"

text \<open>The two stripping steps of \<^verbatim>\<open>fixPublicUrl\<close> together, and its reconstruction step.\<close>

definition strip_ports :: "string \<Rightarrow> string" where
  "strip_ports s = strip_trailing_port (strip_tld_ports s)"

definition rebuild :: "string \<Rightarrow> TunnelClientOptions \<Rightarrow> string \<Rightarrow> string" where
  "rebuild sd opts x =
     (case match_server_domain (serverUrl opts) of
        None \<Rightarrow> x
      | Some d \<Rightarrow>
          if d \<noteq> [] \<and> sd \<noteq> [] \<and> \<not> str_includes x d then
            (if startsWith (serverUrl opts) ''https://'' then ''https://'' else ''http://'')
              @ sd @ d
          else x)"

lemmas scenario_defs = options_S1_def session_fresh_def session_S1_def request_S2_def
  local_service_def answer_200_def clock_S2_def new_MessageHandlerService_def

lemmas url_defs = fixPublicUrl_def is_localhost_def match_tld_port_def tlds_def
  tld_then_digit_def is_digit_def match_server_at_def ws_scheme_rest_def capture_run_def
  not_sep_def force_https_def startsWith_def

lemmas header_defs = filterHeaders_def set_property_def excludeHeaders_def toLowerCase_def
  lower_char_def

section \<open>The forwarder and the headers it returns\<close>

lemma forwardRequest_headers:
  "forwardRequest proxy ax request = Inr response \<Longrightarrow>
   res_headers response = filterHeaders (pr_headers request)"
  by (auto simp: forwardRequest_def split: sum.splits thrown.splits if_splits)

text \<open>
  Claim C1: whenever the local service answers, the record the forwarder returns carries
  the headers of the response, and these are the headers in the metadata of the RESPONSE
  frame sent for the stream.

  The code does not do this. In scenario S2 the local service answers \<open>200 OK\<close> with the
  header \<^verbatim>\<open>content-type: text/plain\<close>; the forwarder returns the filtered headers of the
  request (\<^verbatim>\<open>user-agent: curl/8\<close>, the \<^verbatim>\<open>host\<close> header being filtered out), and the RESPONSE frame
  carries those.
\<close>

theorem forwarder_returns_request_headers:
  "forwardRequest (HttpProxy 3000) (axios (local_service answer_200))
     (toProxyRequest (local_service answer_200) request_S2)
   = Inr \<lparr>res_statusCode = 200, res_statusMessage = ''OK'',
          res_headers = [(''user-agent'', Single ''curl/8'')],
          res_body = ''hello''\<rparr>
   \<and> filter is_response
       (handleRequest (local_service answer_200) clock_S2 session_S1 request_S2)
     = [(1, ''message'', RESPONSE
          \<lparr>rs_streamId = ''S'',
           rs_metadata = \<lparr>md_statusCode = 200, md_statusMessage = ''OK'',
                          md_headers = [(''user-agent'', Single ''curl/8'')]\<rparr>,
           rs_body = ''aGVsbG8='', rs_timestamp = 1007\<rparr>)]"
  by (simp add: scenario_defs header_defs forwardRequest_def requestConfig_def
      toProxyRequest_def handleRequest_def emit_def sendRequestLog_def or_empty_def
      b64_char_def)

section \<open>Header filtering\<close>

lemma set_property_keys:
  "fst ` set (set_property obj key v) \<subseteq> insert key (fst ` set obj)"
  by (auto simp: set_property_def dom_update)

lemma filter_step_keys:
  assumes "fst ` set acc \<subseteq> {k. toLowerCase k \<notin> excludeHeaders}"
  shows "fst ` set (foldl (\<lambda>filtered (key, v).
              if toLowerCase key \<notin> excludeHeaders then set_property filtered key v
              else filtered) acc hs) \<subseteq> {k. toLowerCase k \<notin> excludeHeaders}"
  using assms
proof (induction hs arbitrary: acc)
  case Nil
  then show ?case by simp
next
  case (Cons h hs)
  obtain key v where h: "h = (key, v)" by (cases h)
  let ?acc' = "if toLowerCase key \<notin> excludeHeaders then set_property acc key v else acc"
  have "fst ` set ?acc' \<subseteq> {k. toLowerCase k \<notin> excludeHeaders}"
  proof (cases "toLowerCase key \<notin> excludeHeaders")
    case True
    have "fst ` set (set_property acc key v) \<subseteq> insert key (fst ` set acc)"
      by (rule set_property_keys)
    also have "\<dots> \<subseteq> {k. toLowerCase k \<notin> excludeHeaders}"
      using True Cons.prems by blast
    finally show ?thesis using True by simp
  next
    case False
    then show ?thesis using Cons.prems by simp
  qed
  from Cons.IH [OF this] show ?case by (simp add: h)
qed

lemma filterHeaders_keys:
  "k \<in> fst ` set (filterHeaders hs) \<Longrightarrow> toLowerCase k \<notin> excludeHeaders"
proof -
  assume k: "k \<in> fst ` set (filterHeaders hs)"
  have "fst ` set ([] :: headers) \<subseteq> {k. toLowerCase k \<notin> excludeHeaders}"
    by simp
  then have "fst ` set (filterHeaders hs) \<subseteq> {k. toLowerCase k \<notin> excludeHeaders}"
    unfolding filterHeaders_def by (rule filter_step_keys)
  with k show ?thesis by blast
qed

text \<open>
  Claim C6: whatever the casing of the keys of the input header map, the header map sent
  with the outbound request to the local service has no key whose lowercase form is
  \<^verbatim>\<open>host\<close>, \<^verbatim>\<open>connection\<close>, \<^verbatim>\<open>transfer-encoding\<close> or \<^verbatim>\<open>content-length\<close>.
\<close>

theorem outbound_headers_filtered:
  "\<forall>key \<in> fst ` set (ax_headers (requestConfig proxy request)).
     toLowerCase key \<notin> {''host'', ''connection'', ''transfer-encoding'', ''content-length''}"
proof
  fix key
  assume "key \<in> fst ` set (ax_headers (requestConfig proxy request))"
  then have "key \<in> fst ` set (filterHeaders (pr_headers request))"
    by (simp add: requestConfig_def)
  then have "toLowerCase key \<notin> excludeHeaders"
    by (rule filterHeaders_keys)
  then show "toLowerCase key \<notin> {''host'', ''connection'', ''transfer-encoding'', ''content-length''}"
    by (simp add: excludeHeaders_def)
qed

theorem outbound_headers_filtered_witness:
  "ax_headers (requestConfig (HttpProxy 3000) request_mixed_case)
     = [(''Accept'', Multi [''text/html'', ''*/*''])]
   \<and> ''Accept'' \<in> fst ` set (ax_headers (requestConfig (HttpProxy 3000) request_mixed_case))
   \<and> toLowerCase ''Accept''
       \<notin> {''host'', ''connection'', ''transfer-encoding'', ''content-length''}"
proof -
  have eq: "ax_headers (requestConfig (HttpProxy 3000) request_mixed_case)
     = [(''Accept'', Multi [''text/html'', ''*/*''])]"
    by (simp add: request_mixed_case_def requestConfig_def header_defs)
  then have mem:
    "''Accept'' \<in> fst ` set (ax_headers (requestConfig (HttpProxy 3000) request_mixed_case))"
    by simp
  from outbound_headers_filtered [of "HttpProxy 3000" request_mixed_case] mem
  have "toLowerCase ''Accept''
       \<notin> {''host'', ''connection'', ''transfer-encoding'', ''content-length''}"
    by blast
  with eq mem show ?thesis by blast
qed

section \<open>The public-URL normalizer\<close>

text \<open>
  Claim C2: for the URL \<^verbatim>\<open>http://demo.tunnl.fit3000:3000\<close>, the subdomain \<^verbatim>\<open>demo.\<close> and the server
  URL \<^verbatim>\<open>https://tunnl.fit\<close> the normalizer returns \<^verbatim>\<open>https://demo.tunnl.fit\<close>, comparing against
  the host \<^verbatim>\<open>tunnl.fit\<close> of the server URL.

  The code returns \<^verbatim>\<open>https://demo.https\<close>. The pattern that extracts the server domain only
  skips the schemes \<^verbatim>\<open>ws://\<close> and \<^verbatim>\<open>wss://\<close>; on \<^verbatim>\<open>https://tunnl.fit\<close> its capture is the run before the
  first colon, \<^verbatim>\<open>https\<close>. The repaired string \<^verbatim>\<open>http://demo.tunnl.fit\<close> does not contain \<^verbatim>\<open>https\<close>,
  so the URL is rebuilt from the protocol, the subdomain and that capture.
\<close>

theorem fixPublicUrl_S4:
  "fixPublicUrl ''http://demo.tunnl.fit3000:3000'' ''demo.'' options_S1 = ''https://demo.https''
   \<and> match_server_domain (serverUrl options_S1) = Some ''https''
   \<and> strip_ports ''http://demo.tunnl.fit3000:3000'' = ''http://demo.tunnl.fit''"
  by (simp add: options_S1_def url_defs strip_ports_def)

lemma str_includes_sublist: "str_includes s sub \<longleftrightarrow> sublist sub s"
  by (induction s) (simp_all add: sublist_Cons_right)

lemma force_https_idem: "force_https (force_https s) = force_https s"
  by (simp add: force_https_def)

lemma capture_run_sep:
  "capture_run s = Some d \<Longrightarrow> d \<noteq> [] \<and> list_all not_sep d"
  by (auto simp: capture_run_def list_all_iff split: if_splits dest: set_takeWhileD)

lemma match_server_at_sep:
  "match_server_at s = Some d \<Longrightarrow> d \<noteq> [] \<and> list_all not_sep d"
  by (auto simp: match_server_at_def split: option.splits dest: capture_run_sep)

lemma match_server_domain_sep:
  "match_server_domain s = Some d \<Longrightarrow> d \<noteq> [] \<and> list_all not_sep d"
  by (induction s) (auto split: option.splits dest: match_server_at_sep)

lemma sublist_in_left: "sublist d xs \<Longrightarrow> sublist d (xs @ ys)"
  by (simp add: sublist_append)

lemma sublist_in_right: "sublist d ys \<Longrightarrow> sublist d (xs @ ys)"
  by (simp add: sublist_append)

text \<open>A run without \<^verbatim>\<open>:\<close> and \<^verbatim>\<open>/\<close> that occurs in a string still occurs after the scheme
  \<^verbatim>\<open>http://\<close> has been rewritten to \<^verbatim>\<open>https://\<close>: it lies inside \<^verbatim>\<open>http\<close> or after the scheme.\<close>

lemma sublist_force_https:
  assumes "sublist d s" and "d \<noteq> []" and "list_all not_sep d"
  shows "sublist d (force_https s)"
proof (cases "prefix ''http://'' s")
  case False
  then show ?thesis using assms by (simp add: force_https_def)
next
  case True
  then obtain r where s: "s = ''http://'' @ r"
    by (auto simp: prefix_def)
  have f: "force_https s = ''https://'' @ r"
    by (simp add: s force_https_def)
  from assms(1) have "sublist d ''http'' \<or> sublist d r"
    using assms(2,3) unfolding s
    by (auto simp: sublist_Cons_right prefix_Cons not_sep_def)
  then show ?thesis
  proof
    assume "sublist d ''http''"
    then have "sublist d (''http'' @ (''s://'' @ r))"
      by (rule sublist_in_left)
    then show ?thesis by (simp add: f)
  next
    assume "sublist d r"
    then have "sublist d (''https://'' @ r)"
      by (rule sublist_in_right)
    then show ?thesis by (simp add: f)
  qed
qed

lemma fixPublicUrl_localhost: "is_localhost url \<Longrightarrow> fixPublicUrl url sd opts = url"
  by (simp add: fixPublicUrl_def)

lemma fixPublicUrl_unfold:
  "fixPublicUrl url sd opts =
     (if is_localhost url then url else force_https (rebuild sd opts (strip_ports url)))"
  by (simp add: fixPublicUrl_def rebuild_def strip_ports_def Let_def split: option.splits)

text \<open>After the reconstruction step and the forcing of the scheme, the reconstruction step
  changes nothing: the server domain occurs in the string, or the step is switched off.\<close>

lemma rebuild_stable:
  "rebuild sd opts (force_https (rebuild sd opts x)) = force_https (rebuild sd opts x)"
proof (cases "match_server_domain (serverUrl opts)")
  case None
  then show ?thesis by (simp add: rebuild_def)
next
  case (Some d)
  then have d: "d \<noteq> []" "list_all not_sep d"
    by (auto dest: match_server_domain_sep)
  show ?thesis
  proof (cases "sd \<noteq> [] \<and> \<not> str_includes x d")
    case True
    have "sublist d (force_https
            ((if startsWith (serverUrl opts) ''https://'' then ''https://'' else ''http://'')
               @ sd @ d))"
      by (rule sublist_force_https [OF _ d]) (simp add: sublist_append)
    then show ?thesis
      using Some True d by (simp add: rebuild_def str_includes_sublist)
  next
    case False
    then consider "sd = []" | "sd \<noteq> []" "sublist d x"
      by (auto simp: str_includes_sublist)
    then show ?thesis
    proof cases
      case 1
      then show ?thesis using Some by (simp add: rebuild_def)
    next
      case 2
      then have "sublist d (force_https x)"
        using d by (intro sublist_force_https)
      then show ?thesis
        using Some 2 d by (simp add: rebuild_def str_includes_sublist)
    qed
  qed
qed

text \<open>
  Claim C7: the normalizer is idempotent for every input URL (subdomain and options fixed),
  and for every input that contains \<^verbatim>\<open>localhost\<close> or \<^verbatim>\<open>127.0.0.1\<close> the output equals the input.

  Idempotence fails: the trailing port is stripped once per pass, so a URL that ends in
  two ports loses one of them in each pass.
\<close>

theorem fixPublicUrl_not_idempotent:
  "fixPublicUrl ''https://demo.tunnl.fit:3000:3000'' ''demo'' options_S1
     = ''https://demo.tunnl.fit:3000''
   \<and> fixPublicUrl (fixPublicUrl ''https://demo.tunnl.fit:3000:3000'' ''demo'' options_S1)
        ''demo'' options_S1
     = ''https://demo.tunnl.fit''
   \<and> fixPublicUrl (fixPublicUrl ''https://demo.tunnl.fit:3000:3000'' ''demo'' options_S1)
        ''demo'' options_S1
     \<noteq> fixPublicUrl ''https://demo.tunnl.fit:3000:3000'' ''demo'' options_S1"
  by (simp add: options_S1_def url_defs)

text \<open>
  Claim C7 as amended: for every input that contains \<^verbatim>\<open>localhost\<close> or \<^verbatim>\<open>127.0.0.1\<close> the output
  equals the input; and normalizing the result of a normalization yields the same string
  whenever the two stripping steps (the port fused to a top-level domain, the trailing
  port) leave that result unchanged.
\<close>

theorem fixPublicUrl_localhost_and_stable:
  "(is_localhost url \<longrightarrow> fixPublicUrl url sd opts = url)
   \<and> (strip_trailing_port (strip_tld_ports (fixPublicUrl url sd opts)) = fixPublicUrl url sd opts
        \<longrightarrow> fixPublicUrl (fixPublicUrl url sd opts) sd opts = fixPublicUrl url sd opts)"
proof (intro conjI impI)
  assume "is_localhost url"
  then show "fixPublicUrl url sd opts = url" by (rule fixPublicUrl_localhost)
next
  let ?v = "fixPublicUrl url sd opts"
  assume st: "strip_trailing_port (strip_tld_ports ?v) = ?v"
  show "fixPublicUrl ?v sd opts = ?v"
  proof (cases "is_localhost url")
    case True
    then show ?thesis by (simp add: fixPublicUrl_localhost)
  next
    case False
    then have v: "?v = force_https (rebuild sd opts (strip_ports url))"
      by (simp add: fixPublicUrl_unfold)
    show ?thesis
    proof (cases "is_localhost ?v")
      case True
      then show ?thesis by (rule fixPublicUrl_localhost)
    next
      case False
      then have "fixPublicUrl ?v sd opts = force_https (rebuild sd opts (strip_ports ?v))"
        by (simp add: fixPublicUrl_unfold)
      also have "strip_ports ?v = ?v"
        using st by (simp add: strip_ports_def)
      also have "force_https (rebuild sd opts ?v) = ?v"
        unfolding v by (simp add: rebuild_stable force_https_idem)
      finally show ?thesis .
    qed
  qed
qed

theorem fixPublicUrl_localhost_and_stable_witness:
  "is_localhost ''http://localhost:3000''
   \<and> fixPublicUrl ''http://localhost:3000'' ''demo'' options_S1 = ''http://localhost:3000''
   \<and> fixPublicUrl ''https://demo.tunnl.fit:3000'' ''demo'' options_S1 = ''https://demo.tunnl.fit''
   \<and> strip_trailing_port (strip_tld_ports ''https://demo.tunnl.fit'') = ''https://demo.tunnl.fit''
   \<and> fixPublicUrl (fixPublicUrl ''https://demo.tunnl.fit:3000'' ''demo'' options_S1)
        ''demo'' options_S1
     = fixPublicUrl ''https://demo.tunnl.fit:3000'' ''demo'' options_S1"
proof -
  have l: "is_localhost ''http://localhost:3000''"
    by (simp add: is_localhost_def)
  have v: "fixPublicUrl ''https://demo.tunnl.fit:3000'' ''demo'' options_S1
             = ''https://demo.tunnl.fit''"
    by (simp add: options_S1_def url_defs)
  have st: "strip_trailing_port (strip_tld_ports ''https://demo.tunnl.fit'')
              = ''https://demo.tunnl.fit''"
    by (simp add: url_defs)
  from fixPublicUrl_localhost_and_stable [of "''http://localhost:3000''" "''demo''" options_S1]
    fixPublicUrl_localhost_and_stable [of "''https://demo.tunnl.fit:3000''" "''demo''" options_S1]
    l v st
  show ?thesis by simp
qed

section \<open>The local-service probe\<close>

lemma probe_answered:
  "pingLocalService (local_service answer_200) 5000 session_S1
     = [(1, ''local_service'', LOCAL_SERVICE_PING ''T1'' True 5000)]"
  by (simp add: scenario_defs pingLocalService_def forwardRequest_def sendLocalServicePing_def
      emit_def)

lemma probe_refused:
  "pingLocalService (local_service refused) 5000 session_S1
     = [(1, ''local_service'', LOCAL_SERVICE_PING ''T1'' False 5000)]"
  by (simp add: scenario_defs refused_def pingLocalService_def forwardRequest_def
      sendLocalServicePing_def emit_def string_of_nat.simps)

text \<open>
  Claim C3: at every probe tick a LOCAL_SERVICE_PING frame with
  \<^verbatim>\<open>localServiceConnected = true\<close> is sent iff the \<^verbatim>\<open>HEAD /\<close> request got any HTTP response, one
  with \<^verbatim>\<open>false\<close> iff the probe failed with connection refused or a timeout, and no frame for
  any other error.

  The code sends nothing on a timeout. The forwarder replaces an \<^verbatim>\<open>AxiosError\<close> whose code is
  \<^verbatim>\<open>ETIMEDOUT\<close> by an \<^verbatim>\<open>Error\<close> with the message \<^verbatim>\<open>Request to local service timed out\<close>, and the probe
  looks for \<^verbatim>\<open>ETIMEDOUT\<close> in the message of what it catches.
\<close>

theorem timeout_probe_emits_nothing:
  "forwardRequest (HttpProxy 3000) (axios (local_service timed_out))
     \<lparr>pr_method = ''HEAD'', pr_path = ''/'', pr_query = [],
      pr_headers = [(''User-Agent'', Single ''Tunnel-Agent-Ping'')], pr_body = []\<rparr>
   = Inl (PlainError ''Request to local service timed out'')
   \<and> pingLocalService (local_service timed_out) 5000 session_S1 = []"
  by (simp add: scenario_defs timed_out_def pingLocalService_def forwardRequest_def
      sendLocalServicePing_def)

section \<open>Request dispatch\<close>

lemma or_empty_Nil_iff [simp]: "or_empty x = [] \<longleftrightarrow> falsy x"
  by (cases x) (simp_all add: or_empty_def)

lemma or_empty_the: "\<not> falsy x \<Longrightarrow> or_empty x = the x"
  by (simp add: or_empty_def)

lemma request_logs_append: "request_logs (xs @ ys) = request_logs xs @ request_logs ys"
  by (induction xs rule: request_logs.induct) simp_all

lemma is_response_sendRequestLog [simp]:
  "filter is_response (sendRequestLog sock t p rq c rt em now) = []"
  by (simp add: sendRequestLog_def emit_def Let_def split: option.splits)

lemma sendRequestLog_cases:
  "sendRequestLog (Some sock) t p rq c rt em now = [] \<and> t = []
   \<or> (\<exists>l. sendRequestLog (Some sock) t p rq c rt em now = [(sock, ''message'', REQUEST_LOG l)]
          \<and> log_tunnelId l = t \<and> log_errorMessage l = em \<and> t \<noteq> [])"
  by (simp add: sendRequestLog_def emit_def Let_def)

lemma handleRequest_failure:
  assumes "httpProxy s = Some proxy"
      and "forwardRequest proxy (axios e) (toProxyRequest e requestMessage) = Inl error"
  shows "handleRequest e clk s requestMessage =
           bad_gateway (socket s) (streamId requestMessage) (frameStamp clk)
           # sendRequestLog (Some (socket s)) (or_empty (tunnelId s)) (or_empty (publicUrl s))
               requestMessage 502 (endTime clk - startTime clk) None (logStamp clk)"
  using assms by (simp add: handleRequest_def emit_def bad_gateway_def)

lemma forward_refused:
  "forwardRequest (HttpProxy 3000) (axios (local_service refused)) request
     = Inl (PlainError ''Cannot connect to local service on port 3000. Is your service running?'')"
  by (simp add: forwardRequest_def local_service_def refused_def string_of_nat.simps)

lemma base64_of_error_text:
  "base64_encode ''Error forwarding request to local service''
     = ''RXJyb3IgZm9yd2FyZGluZyByZXF1ZXN0IHRvIGxvY2FsIHNlcnZpY2U=''"
  by (simp add: b64_char_def)

text \<open>
  Claim C8: for every inbound REQUEST frame whose forwarding to the local service fails
  (the forwarder throws), exactly one RESPONSE frame is sent; it carries the \<^verbatim>\<open>streamId\<close> of
  the REQUEST, the status code 502, the status message \<^verbatim>\<open>Bad Gateway\<close>, the headers
  \<^verbatim>\<open>{content-type: text/plain}\<close> and as its body the base64 encoding of
  \<^verbatim>\<open>Error forwarding request to local service\<close>.
\<close>

theorem failure_gives_one_502:
  assumes "httpProxy s = Some proxy"
      and "forwardRequest proxy (axios e) (toProxyRequest e requestMessage) = Inl error"
  shows "filter is_response (handleRequest e clk s requestMessage) =
           [(socket s, ''message'', RESPONSE
              \<lparr>rs_streamId = streamId requestMessage,
               rs_metadata = \<lparr>md_statusCode = 502, md_statusMessage = ''Bad Gateway'',
                              md_headers = [(''content-type'', Single ''text/plain'')]\<rparr>,
               rs_body = base64_encode ''Error forwarding request to local service'',
               rs_timestamp = frameStamp clk\<rparr>)]"
  by (simp add: handleRequest_failure [OF assms] bad_gateway_def)

theorem failure_gives_one_502_witness:
  "httpProxy session_S1 = Some (HttpProxy 3000)
   \<and> forwardRequest (HttpProxy 3000) (axios (local_service refused))
         (toProxyRequest (local_service refused) request_S2)
       = Inl (PlainError ''Cannot connect to local service on port 3000. Is your service running?'')
   \<and> filter is_response (handleRequest (local_service refused) clock_S2 session_S1 request_S2) =
           [(1, ''message'', RESPONSE
              \<lparr>rs_streamId = ''S'',
               rs_metadata = \<lparr>md_statusCode = 502, md_statusMessage = ''Bad Gateway'',
                              md_headers = [(''content-type'', Single ''text/plain'')]\<rparr>,
               rs_body = ''RXJyb3IgZm9yd2FyZGluZyByZXF1ZXN0IHRvIGxvY2FsIHNlcnZpY2U='',
               rs_timestamp = 1007\<rparr>)]"
proof -
  have p: "httpProxy session_S1 = Some (HttpProxy 3000)"
    by (simp add: scenario_defs)
  have f: "forwardRequest (HttpProxy 3000) (axios (local_service refused))
         (toProxyRequest (local_service refused) request_S2)
       = Inl (PlainError ''Cannot connect to local service on port 3000. Is your service running?'')"
    by (rule forward_refused)
  from failure_gives_one_502 [OF p f, of clock_S2] p f base64_of_error_text show ?thesis
    by (simp add: scenario_defs)
qed

text \<open>
  Claim C10: for every inbound REQUEST whose forwarding fails, the REQUEST_LOG sent
  afterwards carries no \<^verbatim>\<open>errorMessage\<close>: the value passed to the log is always \<^verbatim>\<open>undefined\<close>,
  because the \<^verbatim>\<open>catch\<close> branch binds a new local constant named \<^verbatim>\<open>errorMessage\<close> and never
  assigns the outer variable. (The log is sent when the session has a tunnel id.)
\<close>

theorem failure_log_has_no_errorMessage:
  assumes "httpProxy s = Some proxy"
      and "forwardRequest proxy (axios e) (toProxyRequest e requestMessage) = Inl error"
  shows "map log_errorMessage (request_logs (handleRequest e clk s requestMessage))
           = (if falsy (tunnelId s) then [] else [None])"
  by (simp add: handleRequest_failure [OF assms] bad_gateway_def sendRequestLog_def emit_def
      Let_def)

theorem failure_log_has_no_errorMessage_witness:
  "httpProxy session_S1 = Some (HttpProxy 3000)
   \<and> forwardRequest (HttpProxy 3000) (axios (local_service refused))
         (toProxyRequest (local_service refused) request_S2)
       = Inl (PlainError ''Cannot connect to local service on port 3000. Is your service running?'')
   \<and> map log_errorMessage
         (request_logs (handleRequest (local_service refused) clock_S2 session_S1 request_S2))
       = [None]"
proof -
  have p: "httpProxy session_S1 = Some (HttpProxy 3000)"
    by (simp add: scenario_defs)
  have f: "forwardRequest (HttpProxy 3000) (axios (local_service refused))
         (toProxyRequest (local_service refused) request_S2)
       = Inl (PlainError ''Cannot connect to local service on port 3000. Is your service running?'')"
    by (rule forward_refused)
  have t: "\<not> falsy (tunnelId session_S1)"
    by (simp add: scenario_defs)
  from failure_log_has_no_errorMessage [OF p f, of clock_S2] p f t show ?thesis
    by simp
qed

text \<open>
  Claim C4: for every inbound REQUEST frame, after the RESPONSE has been handled, a
  REQUEST_LOG frame is sent, also when the session's tunnel id is unset, in which case
  the \<^verbatim>\<open>tunnelId\<close> of the log is the empty string.

  With the tunnel id unset \<^verbatim>\<open>handleRequest\<close> passes the empty string to \<^verbatim>\<open>sendRequestLog\<close>,
  whose first statement returns on an empty tunnel id: only the RESPONSE is sent.
\<close>

theorem no_log_without_tunnelId:
  "tunnelId session_fresh = None
   \<and> handleRequest (local_service answer_200) clock_S2 session_fresh request_S2
       = [(1, ''message'', RESPONSE
          \<lparr>rs_streamId = ''S'',
           rs_metadata = \<lparr>md_statusCode = 200, md_statusMessage = ''OK'',
                          md_headers = [(''user-agent'', Single ''curl/8'')]\<rparr>,
           rs_body = ''aGVsbG8='', rs_timestamp = 1007\<rparr>)]
   \<and> request_logs (handleRequest (local_service answer_200) clock_S2 session_fresh request_S2)
       = []"
  by (simp add: scenario_defs header_defs forwardRequest_def requestConfig_def
      toProxyRequest_def handleRequest_def emit_def sendRequestLog_def or_empty_def
      b64_char_def)

lemma handleRequest_one_response:
  assumes "httpProxy s = Some proxy"
  shows "\<exists>m. filter is_response (handleRequest e clk s requestMessage)
               = [(socket s, ''message'', RESPONSE m)]
             \<and> rs_streamId m = streamId requestMessage"
proof (cases "forwardRequest proxy (axios e) (toProxyRequest e requestMessage)")
  case (Inl error)
  from handleRequest_failure [OF assms Inl, of clk] show ?thesis
    by (simp add: bad_gateway_def)
next
  case (Inr response)
  with assms show ?thesis
    by (simp add: handleRequest_def emit_def)
qed

text \<open>
  Claim C4 as amended: for every inbound REQUEST frame, what the handler sends is the
  RESPONSE frames followed by the REQUEST_LOG frames. In a session that holds its
  forwarder (\<^verbatim>\<open>httpProxy\<close> is set, as the constructor leaves it) exactly one RESPONSE frame is
  sent, with the \<^verbatim>\<open>streamId\<close> of the REQUEST. Exactly one REQUEST_LOG frame, carrying the
  session's tunnel id, is sent when the tunnel id is set and not empty, and none when it
  is unset or empty.
\<close>

theorem log_iff_tunnelId:
  "(httpProxy s \<noteq> None \<longrightarrow>
      (\<exists>m. filter is_response (handleRequest e clk s requestMessage)
              = [(socket s, ''message'', RESPONSE m)]
            \<and> rs_streamId m = streamId requestMessage))
   \<and> map log_tunnelId (request_logs (handleRequest e clk s requestMessage))
     = (if falsy (tunnelId s) then [] else [the (tunnelId s)])
   \<and> handleRequest e clk s requestMessage
     = filter is_response (handleRequest e clk s requestMessage)
       @ map (\<lambda>l. (socket s, ''message'', REQUEST_LOG l))
           (request_logs (handleRequest e clk s requestMessage))"
proof -
  define code where "code = (case httpProxy s of None \<Rightarrow> 502
     | Some proxy \<Rightarrow> (case forwardRequest proxy (axios e) (toProxyRequest e requestMessage) of
          Inr response \<Rightarrow> res_statusCode response | Inl error \<Rightarrow> 502))"
  define logs where "logs = sendRequestLog (Some (socket s)) (or_empty (tunnelId s))
     (or_empty (publicUrl s)) requestMessage code (endTime clk - startTime clk) None (logStamp clk)"
  have "\<exists>sent. handleRequest e clk s requestMessage = sent @ logs
          \<and> (sent = [] \<or> (\<exists>m. sent = [(socket s, ''message'', RESPONSE m)]))"
    unfolding logs_def code_def
    by (simp add: handleRequest_def emit_def split: option.splits sum.splits)
  then obtain sent where h: "handleRequest e clk s requestMessage = sent @ logs"
    and sent: "sent = [] \<or> (\<exists>m. sent = [(socket s, ''message'', RESPONSE m)])"
    by blast
  from sent have l: "request_logs sent = []" and r: "filter is_response sent = sent"
    by auto
  consider (none) "logs = []" "falsy (tunnelId s)"
    | (one) l where "logs = [(socket s, ''message'', REQUEST_LOG l)]"
        "log_tunnelId l = or_empty (tunnelId s)" "\<not> falsy (tunnelId s)"
    using sendRequestLog_cases [of "socket s" "or_empty (tunnelId s)" "or_empty (publicUrl s)"
        requestMessage code "endTime clk - startTime clk" None "logStamp clk"]
    unfolding logs_def [symmetric] by auto
  then have rest: "map log_tunnelId (request_logs (handleRequest e clk s requestMessage))
     = (if falsy (tunnelId s) then [] else [the (tunnelId s)])
   \<and> handleRequest e clk s requestMessage
     = filter is_response (handleRequest e clk s requestMessage)
       @ map (\<lambda>l. (socket s, ''message'', REQUEST_LOG l))
           (request_logs (handleRequest e clk s requestMessage))"
  proof cases
    case none
    then show ?thesis using h l r by simp
  next
    case one
    then show ?thesis using h l r by (simp add: request_logs_append or_empty_the)
  qed
  have "httpProxy s \<noteq> None \<longrightarrow>
      (\<exists>m. filter is_response (handleRequest e clk s requestMessage)
              = [(socket s, ''message'', RESPONSE m)]
            \<and> rs_streamId m = streamId requestMessage)"
    using handleRequest_one_response [of s _ e clk requestMessage] by auto
  with rest show ?thesis by blast
qed

theorem log_iff_tunnelId_witness:
  "httpProxy session_S1 \<noteq> None
   \<and> filter is_response
       (handleRequest (local_service answer_200) clock_S2 session_S1 request_S2)
     = [(1, ''message'', RESPONSE
          \<lparr>rs_streamId = ''S'',
           rs_metadata = \<lparr>md_statusCode = 200, md_statusMessage = ''OK'',
                          md_headers = [(''user-agent'', Single ''curl/8'')]\<rparr>,
           rs_body = ''aGVsbG8='', rs_timestamp = 1007\<rparr>)]
   \<and> (\<exists>m. filter is_response
              (handleRequest (local_service answer_200) clock_S2 session_S1 request_S2)
            = [(socket session_S1, ''message'', RESPONSE m)]
          \<and> rs_streamId m = streamId request_S2)
   \<and> \<not> falsy (tunnelId session_S1)
   \<and> map log_tunnelId
       (request_logs (handleRequest (local_service answer_200) clock_S2 session_S1 request_S2))
     = [''T1'']
   \<and> falsy (tunnelId session_fresh)
   \<and> map log_tunnelId
       (request_logs (handleRequest (local_service answer_200) clock_S2 session_fresh request_S2))
     = []"
proof -
  have p: "httpProxy session_S1 \<noteq> None"
    by (simp add: scenario_defs)
  have v: "filter is_response
       (handleRequest (local_service answer_200) clock_S2 session_S1 request_S2)
     = [(1, ''message'', RESPONSE
          \<lparr>rs_streamId = ''S'',
           rs_metadata = \<lparr>md_statusCode = 200, md_statusMessage = ''OK'',
                          md_headers = [(''user-agent'', Single ''curl/8'')]\<rparr>,
           rs_body = ''aGVsbG8='', rs_timestamp = 1007\<rparr>)]"
    by (simp add: scenario_defs header_defs forwardRequest_def requestConfig_def
        toProxyRequest_def handleRequest_def emit_def sendRequestLog_def or_empty_def
        b64_char_def)
  have a: "\<not> falsy (tunnelId session_S1)" and b: "falsy (tunnelId session_fresh)"
    and t: "the (tunnelId session_S1) = ''T1''"
    by (simp_all add: scenario_defs)
  note S1 = log_iff_tunnelId [of session_S1 "local_service answer_200" clock_S2 request_S2]
  note fresh = log_iff_tunnelId [of session_fresh "local_service answer_200" clock_S2 request_S2]
  from S1 p have ex: "\<exists>m. filter is_response
              (handleRequest (local_service answer_200) clock_S2 session_S1 request_S2)
            = [(socket session_S1, ''message'', RESPONSE m)]
          \<and> rs_streamId m = streamId request_S2"
    by blast
  from S1 a t have l1: "map log_tunnelId
       (request_logs (handleRequest (local_service answer_200) clock_S2 session_S1 request_S2))
     = [''T1'']"
    by simp
  from fresh b have l2: "map log_tunnelId
       (request_logs (handleRequest (local_service answer_200) clock_S2 session_fresh request_S2))
     = []"
    by simp
  from p v ex a l1 b l2 show ?thesis by blast
qed

section \<open>The dispatcher\<close>

text \<open>
  Claim C9: an inbound frame of type CONNECT (not only CONNECT_ACK) that arrives while
  the session is not connected makes the agent send a CONNECT frame, mark the session
  connected and resolve the pending \<^verbatim>\<open>connect()\<close> promise; the tunnel id, the subdomain and
  the public URL are left as they were, so a session can be connected with none of them
  set.
\<close>

theorem connect_frame_marks_connected:
  assumes "\<not> isConnected s"
  shows "on_message e now clk s (Some (CONNECT m)) =
           (s\<lparr>isConnected := True\<rparr>,
            [(socket s, ''message'', CONNECT
                \<lparr>cn_token = token (options s),
                 requestedSubdomain = opt_subdomain (options s),
                 agentVersion = AGENT_VERSION e,
                 cn_localPort = localPort (options s),
                 requestCount = 0,
                 cn_timestamp = now\<rparr>)],
            True)
         \<and> tunnelId (fst (on_message e now clk s (Some (CONNECT m)))) = tunnelId s
         \<and> subdomain (fst (on_message e now clk s (Some (CONNECT m)))) = subdomain s
         \<and> publicUrl (fst (on_message e now clk s (Some (CONNECT m)))) = publicUrl s"
  using assms
  by (simp add: on_message_def handleConnect_def sendConnectMessage_def emit_def)

theorem connect_frame_marks_connected_witness:
  "\<not> isConnected session_fresh
   \<and> on_message (local_service answer_200) 1000 clock_S2 session_fresh
         (Some (CONNECT connect_frame))
       = (session_fresh\<lparr>isConnected := True\<rparr>,
          [(1, ''message'', CONNECT
              \<lparr>cn_token = Some ''tok'', requestedSubdomain = ''demo'',
               agentVersion = Some ''1.0.0'', cn_localPort = 3000, requestCount = 0,
               cn_timestamp = 1000\<rparr>)],
          True)
   \<and> isConnected (fst (on_message (local_service answer_200) 1000 clock_S2 session_fresh
                         (Some (CONNECT connect_frame))))
   \<and> tunnelId (fst (on_message (local_service answer_200) 1000 clock_S2 session_fresh
                         (Some (CONNECT connect_frame)))) = None
   \<and> subdomain (fst (on_message (local_service answer_200) 1000 clock_S2 session_fresh
                         (Some (CONNECT connect_frame)))) = None
   \<and> publicUrl (fst (on_message (local_service answer_200) 1000 clock_S2 session_fresh
                         (Some (CONNECT connect_frame)))) = None"
proof -
  have n: "\<not> isConnected session_fresh"
    by (simp add: scenario_defs)
  from connect_frame_marks_connected
         [OF n, of "local_service answer_200" 1000 clock_S2 connect_frame] n
  show ?thesis
    by (simp add: scenario_defs)
qed

section \<open>The backoff schedule\<close>

lemma attemptReconnect_failure:
  assumes "shouldReconnect s" and "retryCount < 9"
  shows "attemptReconnect s retryCount (Some error) =
           (s\<lparr>reconnectTimeout := Some (backoff retryCount, retryCount + 1)\<rparr>, None)"
  using assms
  by (simp add: attemptReconnect_def maxRetries_def baseDelay_def maxDelay_def backoff_def)

lemma attemptReconnect_last:
  "attemptReconnect s 9 (Some error) = (s\<lparr>reconnectTimeout := None\<rparr>, Some 1)"
  by (simp add: attemptReconnect_def maxRetries_def)

text \<open>Once \<^verbatim>\<open>destroy\<close> has cleared \<^verbatim>\<open>shouldReconnect\<close>, a failed attempt schedules nothing and
  exits.\<close>

lemma run_reconnects_stopped:
  "\<not> shouldReconnect s \<Longrightarrow>
   run_reconnects s n (Some error # rs) = ([], ProcessExit 1)"
  by (simp add: attemptReconnect_def)

lemma run_reconnects_failures:
  assumes "shouldReconnect s" and "list_all (\<lambda>r. r \<noteq> None) rs" and "n + length rs \<le> 9"
  shows "run_reconnects s n rs = (map backoff [n ..< n + length rs], TimerArmed (n + length rs))"
  using assms
proof (induction rs arbitrary: s n)
  case Nil
  then show ?case by simp
next
  case (Cons r rs)
  from Cons.prems obtain error where r: "r = Some error" by auto
  from Cons.prems have n: "n < 9" by simp
  let ?s1 = "s\<lparr>reconnectTimeout := Some (backoff n, n + 1)\<rparr>"
  have step: "attemptReconnect s n r = (?s1, None)"
    using Cons.prems(1) n by (simp add: r attemptReconnect_failure)
  have "run_reconnects ?s1 (n + 1) rs
          = (map backoff [n + 1 ..< n + 1 + length rs], TimerArmed (n + 1 + length rs))"
    using Cons.prems by (intro Cons.IH) simp_all
  moreover have "[n ..< n + length (r # rs)] = n # [n + 1 ..< n + 1 + length rs]"
    by (subst upt_conv_Cons) simp_all
  ultimately show ?case
    by (simp add: step del: upt_Suc)
qed

lemma run_reconnects_exhausted:
  assumes "shouldReconnect s" and "list_all (\<lambda>r. r \<noteq> None) rs" and "n + length rs = 9"
  shows "run_reconnects s n (rs @ [Some error]) = (map backoff [n ..< 9], ProcessExit 1)"
  using assms
proof (induction rs arbitrary: s n)
  case Nil
  then show ?case by (simp add: attemptReconnect_last)
next
  case (Cons r rs)
  from Cons.prems obtain err where r: "r = Some err" by auto
  from Cons.prems have n: "n < 9" by simp
  let ?s1 = "s\<lparr>reconnectTimeout := Some (backoff n, n + 1)\<rparr>"
  have step: "attemptReconnect s n r = (?s1, None)"
    using Cons.prems(1) n by (simp add: r attemptReconnect_failure)
  have "run_reconnects ?s1 (n + 1) (rs @ [Some error])
          = (map backoff [n + 1 ..< 9], ProcessExit 1)"
    using Cons.prems by (intro Cons.IH) simp_all
  moreover have "[n ..< 9] = n # [n + 1 ..< 9]"
    using n by (subst upt_conv_Cons) simp_all
  ultimately show ?case
    by (simp add: step del: upt_Suc)
qed

text \<open>
  Claim C5: for every sequence of \<open>k\<close> consecutive failed reconnection attempts within one
  disconnect episode (\<open>k < 10\<close>), the delay scheduled after the \<open>i\<close>-th failure
  (\<open>i = 0..k-1\<close>) is \<open>min (5000 * 2 ^ i) 60000\<close> milliseconds, and upon the tenth consecutive
  failure no further attempt is scheduled and the process exits with code 1. The
  supervisor is running: \<^verbatim>\<open>shouldReconnect\<close> holds, as it does until \<^verbatim>\<open>destroy\<close> is called.
\<close>

theorem backoff_schedule:
  assumes "shouldReconnect s"
      and "list_all (\<lambda>r. r \<noteq> None) failures"
  shows "(length failures < 10 \<longrightarrow>
            run_reconnects s 0 failures
              = (map (\<lambda>i. min (5000 * 2 ^ i) 60000) [0 ..< length failures],
                 TimerArmed (length failures)))
       \<and> (length failures = 10 \<longrightarrow>
            run_reconnects s 0 failures
              = (map (\<lambda>i. min (5000 * 2 ^ i) 60000) [0 ..< 9], ProcessExit 1))"
proof (intro conjI impI)
  assume "length failures < 10"
  then have "0 + length failures \<le> 9" by simp
  from run_reconnects_failures [OF assms this]
  show "run_reconnects s 0 failures
              = (map (\<lambda>i. min (5000 * 2 ^ i) 60000) [0 ..< length failures],
                 TimerArmed (length failures))"
    by (simp add: backoff_def [abs_def])
next
  assume len: "length failures = 10"
  then have ne: "failures \<noteq> []" by auto
  then obtain rs r where f: "failures = rs @ [r]"
    by (metis rev_exhaust)
  with assms(2) obtain error where r: "r = Some error" by auto
  from f len have l: "0 + length rs = 9" by simp
  from f assms(2) have a: "list_all (\<lambda>r. r \<noteq> None) rs" by simp
  from run_reconnects_exhausted [OF assms(1) a l, of error]
  show "run_reconnects s 0 failures
              = (map (\<lambda>i. min (5000 * 2 ^ i) 60000) [0 ..< 9], ProcessExit 1)"
    by (simp add: f r backoff_def [abs_def])
qed

theorem backoff_schedule_witness:
  "shouldReconnect (handleDisconnect session_S1)
   \<and> reconnectTimeout (handleDisconnect session_S1) = Some (5000, 0)
   \<and> list_all (\<lambda>r. r \<noteq> None) (replicate 4 (Some NonError))
   \<and> run_reconnects (handleDisconnect session_S1) 0 (replicate 4 (Some NonError))
       = ([5000, 10000, 20000, 40000], TimerArmed 4)
   \<and> list_all (\<lambda>r. r \<noteq> None) (replicate 10 (Some NonError))
   \<and> run_reconnects (handleDisconnect session_S1) 0 (replicate 10 (Some NonError))
       = ([5000, 10000, 20000, 40000, 60000, 60000, 60000, 60000, 60000], ProcessExit 1)"
proof -
  have s: "shouldReconnect (handleDisconnect session_S1)"
    and t: "reconnectTimeout (handleDisconnect session_S1) = Some (5000, 0)"
    by (simp_all add: scenario_defs handleDisconnect_def)
  have a4: "list_all (\<lambda>r. r \<noteq> None) (replicate 4 (Some NonError))"
    and a10: "list_all (\<lambda>r. r \<noteq> None) (replicate 10 (Some NonError))"
    by (simp_all add: list_all_iff)
  have m4: "map (\<lambda>i. min (5000 * 2 ^ i) 60000) [0 ..< 4] = [5000, 10000, 20000, 40000 :: nat]"
    by (simp add: upt_conv_Cons)
  have m9: "map (\<lambda>i. min (5000 * 2 ^ i) 60000) [0 ..< 9]
      = [5000, 10000, 20000, 40000, 60000, 60000, 60000, 60000, 60000 :: nat]"
    by (simp add: upt_conv_Cons)
  from backoff_schedule [OF s a4] backoff_schedule [OF s a10] s t a4 a10 m4 m9
  show ?thesis by simp
qed

end
